theory Spec2Isabelle
  imports Main "HOL-Library.Sublist"
begin

section \<open>JavaScript values used by the front-end glue\<close>

text \<open>
  A JavaScript string is modelled as a \<^typ>\<open>string\<close>: one \<^typ>\<open>char\<close> per UTF-16 code unit,
  for the code units below 256 (ASCII and Latin-1). Environment values, header names,
  URLs and decimal numerals all live in that range.

  \<open>process.env\<close> is a dictionary from names to strings; a name that is not there reads
  as \<open>undefined\<close>, here \<open>None\<close>.
\<close>

type_synonym env = "string \<rightharpoonup> string"

text \<open>
  JavaScript's truthiness of a \<open>string | undefined\<close> (also \<open>string | null\<close>): \<open>undefined\<close>,
  \<open>null\<close> and the empty string are falsy, every other string is truthy. \<open>!v\<close> is
  \<open>\<not> truthy v\<close>.
\<close>

fun truthy :: "string option \<Rightarrow> bool" where
  "truthy None = False"
| "truthy (Some s) = (s \<noteq> [])"

text \<open>\<open>a || b\<close> on such values: \<open>a\<close> when it is truthy, else \<open>b\<close>.\<close>

definition js_or :: "string option \<Rightarrow> string option \<Rightarrow> string option" where
  "js_or a b = (if truthy a then a else b)"

text \<open>\<open>a || 'lit'\<close>, whose result is always a string.\<close>

definition or_else :: "string option \<Rightarrow> string \<Rightarrow> string" where
  "or_else a d = (case a of None \<Rightarrow> d | Some s \<Rightarrow> if s = [] then d else s)"

text \<open>A thrown \<open>new Error(message)\<close>.\<close>

datatype js_error = Error (message: string)

text \<open>Sequencing of computations that may throw: the first throw is the result.\<close>

definition bindE :: "js_error + 'a \<Rightarrow> ('a \<Rightarrow> js_error + 'b) \<Rightarrow> js_error + 'b" where
  "bindE m f = (case m of Inl e \<Rightarrow> Inl e | Inr v \<Rightarrow> f v)"

text \<open>
  A JavaScript Number that holds an integer, or NaN. \<open>Num n\<close> is the Number whose value
  is exactly the integer \<open>n\<close>; every integer of magnitude up to \<open>2 ^ 53\<close> is such a
  Number. \<open>Rounded n\<close> stands for the Number that the conversion of a larger integer
  \<open>n\<close> yields (a double near \<open>n\<close>, or an infinity): it is not NaN, and the model does
  not compute its bits.
\<close>

datatype js_number = NaN | Num int | Rounded int

definition to_Number :: "int \<Rightarrow> js_number" where
  "to_Number n = (if \<bar>n\<bar> \<le> 2 ^ 53 then Num n else Rounded n)"

fun isNaN :: "js_number \<Rightarrow> bool" where
  "isNaN NaN = True"
| "isNaN (Num _) = False"
| "isNaN (Rounded _) = False"

subsection \<open>String built-ins\<close>

text \<open>
  \<open>String.prototype.toLowerCase\<close> on code units below 256: \<open>A\<close>..\<open>Z\<close> and the Latin-1
  capitals (192..222 without the multiplication sign 215) move up by 32, everything
  else stays.
\<close>

definition toLowerCase_char :: "char \<Rightarrow> char" where
  "toLowerCase_char c =
     (let n = (of_char c :: nat)
      in if (65 \<le> n \<and> n \<le> 90) \<or> (192 \<le> n \<and> n \<le> 222 \<and> n \<noteq> 215)
         then char_of (n + 32) else c)"

definition toLowerCase :: "string \<Rightarrow> string" where
  "toLowerCase s = map toLowerCase_char s"

text \<open>
  \<open>parseInt(s, 10)\<close> as ECMAScript defines it: skip leading white space (TAB, LF, VT,
  FF, CR, space and the no-break space 160 among the code units below 256), read an
  optional sign, take the longest run of decimal digits; no digit gives NaN, otherwise
  the signed value of the run.
\<close>

definition isWhiteSpace :: "char \<Rightarrow> bool" where
  "isWhiteSpace c = ((of_char c :: nat) \<in> {9, 10, 11, 12, 13, 32, 160})"

definition isDigit :: "char \<Rightarrow> bool" where
  "isDigit c = (48 \<le> (of_char c :: nat) \<and> (of_char c :: nat) \<le> 57)"

definition digitValue :: "char \<Rightarrow> int" where
  "digitValue c = int (of_char c) - 48"

definition decimalValue :: "string \<Rightarrow> int" where
  "decimalValue ds = foldl (\<lambda>acc c. 10 * acc + digitValue c) 0 ds"

definition parseInt :: "string \<Rightarrow> js_number" where
  "parseInt s =
     (let t = dropWhile isWhiteSpace s;
          negative = (t \<noteq> [] \<and> hd t = CHR ''-'');
          u = (if t \<noteq> [] \<and> (hd t = CHR ''+'' \<or> hd t = CHR ''-'') then tl t else t);
          z = takeWhile isDigit u
      in if z = [] then NaN
         else to_Number (if negative then - decimalValue z else decimalValue z))"

section \<open>Config loader\<close>

text \<open>\<open>getEnvVar(key, fallback?)\<close>: the optional fallback is \<open>None\<close> when it is left out.\<close>

definition getEnvVar :: "env \<Rightarrow> string \<Rightarrow> string option \<Rightarrow> js_error + string" where
  "getEnvVar e key fallback =
     (let v = e key
      in if \<not> truthy v \<and> \<not> truthy fallback
         then Inl (Error (''Environment variable '' @ key @ '' is required but not set''))
         else Inr (or_else (js_or v fallback) ''''))"

definition parseBoolean :: "string option \<Rightarrow> bool \<Rightarrow> bool" where
  "parseBoolean v fallback =
     (if \<not> truthy v then fallback else toLowerCase (the v) = ''true'')"

definition parseNumber :: "string option \<Rightarrow> js_number \<Rightarrow> js_number" where
  "parseNumber v fallback =
     (if \<not> truthy v then fallback
      else (let parsed = parseInt (the v) in if isNaN parsed then fallback else parsed))"

record app_group =
  name :: string
  version :: string
  environment :: string

record api_group =
  baseUrl :: string
  timeout :: js_number
  api_version :: string

record auth_group =
  domain :: string
  clientId :: string
  redirectUri :: string

record firebase_group =
  apiKey :: string
  authDomain :: string
  projectId :: string
  storageBucket :: string
  messagingSenderId :: string
  appId :: string

record analytics_group =
  googleAnalyticsId :: string
  mixpanelToken :: string

record features_group =
  newUI :: bool
  betaAccess :: bool
  debugMode :: bool

record assets_group =
  cdnUrl :: string
  assetsUrl :: string

record social_group =
  facebookAppId :: string
  githubClientId :: string
  linkedinClientId :: string

record monitoring_group =
  sentryDsn :: string
  hotjarId :: string

record development_group =
  mockApi :: bool
  logLevel :: string

record AppConfig =
  app :: app_group
  api :: api_group
  auth :: "auth_group option"
  firebase :: "firebase_group option"
  analytics :: "analytics_group option"
  features :: features_group
  assets :: "assets_group option"
  social :: "social_group option"
  monitoring :: "monitoring_group option"
  development :: development_group

text \<open>
  The object literal \<open>config\<close> evaluates its properties in the order they are written;
  the first \<open>getEnvVar\<close> that throws ends the construction. Each group below is one
  property of the literal.
\<close>

definition config_app :: "env \<Rightarrow> js_error + app_group" where
  "config_app e =
     bindE (getEnvVar e ''REACT_APP_APP_NAME'' (Some ''React App'')) (\<lambda>n.
     bindE (getEnvVar e ''REACT_APP_VERSION'' (Some ''1.0.0'')) (\<lambda>v.
     bindE (getEnvVar e ''REACT_APP_ENVIRONMENT'' (Some ''development'')) (\<lambda>env.
     Inr \<lparr>name = n, version = v, environment = env\<rparr>)))"

definition config_api :: "env \<Rightarrow> js_error + api_group" where
  "config_api e =
     bindE (getEnvVar e ''REACT_APP_API_BASE_URL'' None) (\<lambda>b.
     bindE (getEnvVar e ''REACT_APP_API_VERSION'' (Some ''v1'')) (\<lambda>v.
     Inr \<lparr>baseUrl = b,
          timeout = parseNumber (e ''REACT_APP_API_TIMEOUT'') (Num 10000),
          api_version = v\<rparr>))"

definition config_auth :: "env \<Rightarrow> js_error + auth_group option" where
  "config_auth e =
     (if truthy (e ''REACT_APP_AUTH_DOMAIN'') then
        bindE (getEnvVar e ''REACT_APP_AUTH_DOMAIN'' None) (\<lambda>d.
        bindE (getEnvVar e ''REACT_APP_CLIENT_ID'' None) (\<lambda>c.
        bindE (getEnvVar e ''REACT_APP_REDIRECT_URI'' None) (\<lambda>r.
        Inr (Some \<lparr>domain = d, clientId = c, redirectUri = r\<rparr>))))
      else Inr None)"

definition config_firebase :: "env \<Rightarrow> js_error + firebase_group option" where
  "config_firebase e =
     (if truthy (e ''REACT_APP_FIREBASE_API_KEY'') then
        bindE (getEnvVar e ''REACT_APP_FIREBASE_API_KEY'' None) (\<lambda>k.
        bindE (getEnvVar e ''REACT_APP_FIREBASE_AUTH_DOMAIN'' None) (\<lambda>d.
        bindE (getEnvVar e ''REACT_APP_FIREBASE_PROJECT_ID'' None) (\<lambda>p.
        bindE (getEnvVar e ''REACT_APP_FIREBASE_STORAGE_BUCKET'' None) (\<lambda>s.
        bindE (getEnvVar e ''REACT_APP_FIREBASE_MESSAGING_SENDER_ID'' None) (\<lambda>m.
        bindE (getEnvVar e ''REACT_APP_FIREBASE_APP_ID'' None) (\<lambda>a.
        Inr (Some \<lparr>apiKey = k, authDomain = d, projectId = p, storageBucket = s,
                   messagingSenderId = m, appId = a\<rparr>)))))))
      else Inr None)"

definition config_analytics :: "env \<Rightarrow> js_error + analytics_group option" where
  "config_analytics e =
     (if truthy (e ''REACT_APP_GOOGLE_ANALYTICS_ID'') \<or> truthy (e ''REACT_APP_MIXPANEL_TOKEN'') then
        bindE (getEnvVar e ''REACT_APP_GOOGLE_ANALYTICS_ID'' (Some '''')) (\<lambda>g.
        bindE (getEnvVar e ''REACT_APP_MIXPANEL_TOKEN'' (Some '''')) (\<lambda>m.
        Inr (Some \<lparr>googleAnalyticsId = g, mixpanelToken = m\<rparr>)))
      else Inr None)"

definition config_features :: "env \<Rightarrow> features_group" where
  "config_features e =
     \<lparr>newUI = parseBoolean (e ''REACT_APP_FEATURE_NEW_UI'') False,
      betaAccess = parseBoolean (e ''REACT_APP_FEATURE_BETA_ACCESS'') False,
      debugMode = parseBoolean (e ''REACT_APP_FEATURE_DEBUG_MODE'') False\<rparr>"

definition config_assets :: "env \<Rightarrow> js_error + assets_group option" where
  "config_assets e =
     (if truthy (e ''REACT_APP_CDN_URL'') \<or> truthy (e ''REACT_APP_ASSETS_URL'') then
        bindE (getEnvVar e ''REACT_APP_CDN_URL'' (Some '''')) (\<lambda>c.
        bindE (getEnvVar e ''REACT_APP_ASSETS_URL'' (Some '''')) (\<lambda>a.
        Inr (Some \<lparr>cdnUrl = c, assetsUrl = a\<rparr>)))
      else Inr None)"

definition config_social :: "env \<Rightarrow> js_error + social_group option" where
  "config_social e =
     (if truthy (e ''REACT_APP_FACEBOOK_APP_ID'') \<or> truthy (e ''REACT_APP_GITHUB_CLIENT_ID'')
         \<or> truthy (e ''REACT_APP_LINKEDIN_CLIENT_ID'') then
        bindE (getEnvVar e ''REACT_APP_FACEBOOK_APP_ID'' (Some '''')) (\<lambda>f.
        bindE (getEnvVar e ''REACT_APP_GITHUB_CLIENT_ID'' (Some '''')) (\<lambda>g.
        bindE (getEnvVar e ''REACT_APP_LINKEDIN_CLIENT_ID'' (Some '''')) (\<lambda>l.
        Inr (Some \<lparr>facebookAppId = f, githubClientId = g, linkedinClientId = l\<rparr>))))
      else Inr None)"

definition config_monitoring :: "env \<Rightarrow> js_error + monitoring_group option" where
  "config_monitoring e =
     (if truthy (e ''REACT_APP_SENTRY_DSN'') \<or> truthy (e ''REACT_APP_HOTJAR_ID'') then
        bindE (getEnvVar e ''REACT_APP_SENTRY_DSN'' (Some '''')) (\<lambda>s.
        bindE (getEnvVar e ''REACT_APP_HOTJAR_ID'' (Some '''')) (\<lambda>h.
        Inr (Some \<lparr>sentryDsn = s, hotjarId = h\<rparr>)))
      else Inr None)"

definition config_development :: "env \<Rightarrow> development_group" where
  "config_development e =
     \<lparr>mockApi = parseBoolean (e ''REACT_APP_MOCK_API'') False,
      logLevel = or_else (e ''REACT_APP_LOG_LEVEL'') ''info''\<rparr>"

definition config :: "env \<Rightarrow> js_error + AppConfig" where
  "config e =
     bindE (config_app e) (\<lambda>ap.
     bindE (config_api e) (\<lambda>ai.
     bindE (config_auth e) (\<lambda>au.
     bindE (config_firebase e) (\<lambda>fb.
     bindE (config_analytics e) (\<lambda>an.
     bindE (config_assets e) (\<lambda>as.
     bindE (config_social e) (\<lambda>so.
     bindE (config_monitoring e) (\<lambda>mo.
     Inr \<lparr>app = ap, api = ai, auth = au, firebase = fb, analytics = an,
          features = config_features e, assets = as, social = so, monitoring = mo,
          development = config_development e\<rparr>))))))))"

text \<open>
  \<open>Array.prototype.join\<close> with a separator, on an array of strings.
\<close>

fun join :: "string \<Rightarrow> string list \<Rightarrow> string" where
  "join sep [] = []"
| "join sep [x] = x"
| "join sep (x # y # ys) = x @ sep @ join sep (y # ys)"

definition requiredVars :: "string list" where
  "requiredVars = [''REACT_APP_API_BASE_URL'']"

text \<open>The check of \<open>validateConfig\<close>, for the list of names it is given.\<close>

definition validateVars :: "string list \<Rightarrow> env \<Rightarrow> js_error + unit" where
  "validateVars vars e =
     (let missingVars = filter (\<lambda>varName. \<not> truthy (e varName)) vars
      in if length missingVars > 0
         then Inl (Error (''Missing required environment variables: '' @ join '', '' missingVars
                @ [CHR 0x0A]
                @ ''Please check your .env file and ensure all required variables are set.''))
         else Inr ())"

definition validateConfig :: "env \<Rightarrow> js_error + unit" where
  "validateConfig e = validateVars requiredVars e"

section \<open>JSON values\<close>

text \<open>
  A JSON value as \<open>response.json()\<close> yields it and \<open>JSON.stringify\<close> reads it. A number is
  carried by its JSON text (\<open>JNum ''404''\<close>), an object by its properties in enumeration
  order.
\<close>

datatype json =
    JNull
  | JBool bool
  | JNum string
  | JStr string
  | JArr "json list"
  | JObj "(string \<times> json) list"





text \<open>Decimal text of a natural number, as a template literal writes a status code.\<close>

fun show_nat :: "nat \<Rightarrow> string" where
  "show_nat n = (if n < 10 then [char_of (48 + n)] else show_nat (n div 10) @ [char_of (48 + n mod 10)])"

declare show_nat.simps [simp del]


section \<open>Development proxy\<close>

definition getTargetUrl :: "env \<Rightarrow> string" where
  "getTargetUrl e = or_else (e ''REACT_APP_API_BASE_URL'') ''http://localhost:5000''"



section \<open>HTTP client\<close>

text \<open>
  \<open>ApiConfig\<close>. The timeout is the Number \<open>Number(process.env.REACT_APP_API_TIMEOUT) || 10000\<close>,
  a double that need not be an integer; the client only hands it to \<open>setTimeout\<close>, so its
  type is left open and the expression is a parameter of \<open>getApiConfig\<close>.
\<close>

record 'n ApiConfig =
  baseURL :: string
  cfg_timeout :: 'n
  cfg_headers :: "string \<rightharpoonup> string"

definition getApiConfig :: "(string option \<Rightarrow> 'n) \<Rightarrow> env \<Rightarrow> 'n ApiConfig" where
  "getApiConfig numberOr10000 e =
     (let isDevelopment = (e ''NODE_ENV'' = Some ''development'')
      in \<lparr>baseURL = (if isDevelopment then '''' else or_else (e ''REACT_APP_API_BASE_URL'') ''''),
          cfg_timeout = numberOr10000 (e ''REACT_APP_API_TIMEOUT''),
          cfg_headers = [''Content-Type'' \<mapsto> ''application/json'',
                         ''X-API-Version'' \<mapsto> (or_else (e ''REACT_APP_API_VERSION'') ''v1'')]\<rparr>)"

text \<open>The fields of \<open>RequestInit\<close> that the client sets or reads.\<close>

record RequestInit =
  http_method :: "string option"
  headers :: "string \<rightharpoonup> string"
  body :: "string option"

text \<open>\<open>class ApiError extends Error\<close>: its three public fields; name and message follow.\<close>

datatype api_error = ApiError (status: nat) (statusText: string) (data: json)

definition ApiError_message :: "api_error \<Rightarrow> string" where
  "ApiError_message a = ''API Error '' @ show_nat (status a) @ '': '' @ statusText a"

text \<open>
  A value that can be thrown inside the \<open>try\<close> block: an \<open>ApiError\<close>, another \<open>Error\<close> (a
  \<open>DOMException\<close> among them) with its name and message, or a value that is not an
  \<open>Error\<close>.
\<close>

datatype thrown =
    ThrownApiError api_error
  | ThrownError (err_name: string) (err_message: string)
  | NonError json

text \<open>
  A \<open>Response\<close>: \<open>ok\<close> is the Fetch standard's getter (a status in 200..299), and
  \<open>resp_json\<close> is how \<open>response.json()\<close> settles: the decoded body, or the value it rejects
  with when the body is empty or not JSON.
\<close>

record response =
  resp_status :: nat
  resp_statusText :: string
  resp_json :: "thrown + json"

definition ok :: "response \<Rightarrow> bool" where
  "ok r = (200 \<le> resp_status r \<and> resp_status r \<le> 299)"

text \<open>
  How \<open>await fetch(url, {...config, signal})\<close> ends: with a response; with a rejection
  while the timer is still pending; or with the timer firing first, whose callback
  \<open>controller.abort()\<close> makes \<open>fetch\<close> reject with the \<open>AbortError\<close> exception (carrying the
  browser's message).
\<close>

datatype fetch_outcome = Resolves response | Rejects thrown | TimesOut string

text \<open>The timer of \<open>setTimeout\<close>: pending with its delay, cleared by \<open>clearTimeout\<close>, or run.\<close>

datatype 'n timer = Armed 'n | Cleared | Fired

definition request_url :: "'n ApiConfig \<Rightarrow> string \<Rightarrow> string" where
  "request_url cfg endpoint = baseURL cfg @ endpoint"

definition request_config :: "'n ApiConfig \<Rightarrow> string option \<Rightarrow> RequestInit \<Rightarrow> RequestInit" where
  "request_config cfg token options =
     (let config = options\<lparr>headers := cfg_headers cfg ++ headers options\<rparr>
      in if truthy token
         then config\<lparr>headers := (headers config)(''Authorization'' \<mapsto> (''Bearer '' @ the token))\<rparr>
         else config)"

text \<open>
  The \<open>try\<close> block, from \<open>setTimeout\<close> on: the state of the timer when the block is left,
  and the value returned or thrown.
\<close>

definition try_block :: "'n \<Rightarrow> fetch_outcome \<Rightarrow> 'n timer \<times> (thrown + json)" where
  "try_block delay outcome =
     (case outcome of
        Rejects err \<Rightarrow> (Armed delay, Inl err)
      | TimesOut m \<Rightarrow> (Fired, Inl (ThrownError ''AbortError'' m))
      | Resolves r \<Rightarrow>
          (Cleared,
           if \<not> ok r then
             Inl (ThrownApiError (ApiError (resp_status r) (resp_statusText r)
                    (case resp_json r of Inl _ \<Rightarrow> JNull | Inr d \<Rightarrow> d)))
           else if resp_status r = 204 then Inr (JObj [])
           else resp_json r))"

text \<open>The \<open>catch\<close> block: the \<open>ApiError\<close> it throws for the value it caught.\<close>

definition catch_block :: "thrown \<Rightarrow> api_error" where
  "catch_block error =
     (case error of
        ThrownApiError a \<Rightarrow> a
      | ThrownError n m \<Rightarrow>
          if n = ''AbortError'' then ApiError 408 ''Request Timeout'' JNull
          else ApiError 0 m JNull
      | NonError _ \<Rightarrow> ApiError 0 ''Unknown Error'' JNull)"

text \<open>
  One run of \<open>ApiClient.request\<close>: what was sent, the timer when the promise settles, and
  the promise's outcome (\<open>Inl\<close> a rejection). \<open>token\<close> is
  \<open>localStorage.getItem('authToken')\<close>, and \<open>fetch\<close> answers the request that is sent.
\<close>

record 'n request_run =
  sent_url :: string
  sent_config :: RequestInit
  timer_after :: "'n timer"
  outcome :: "api_error + json"

definition request ::
  "'n ApiConfig \<Rightarrow> string option \<Rightarrow> (string \<Rightarrow> RequestInit \<Rightarrow> fetch_outcome) \<Rightarrow>
   string \<Rightarrow> RequestInit \<Rightarrow> 'n request_run" where
  "request cfg token fetch endpoint options =
     (let url = request_url cfg endpoint;
          config = request_config cfg token options;
          (t, r) = try_block (cfg_timeout cfg) (fetch url config)
      in \<lparr>sent_url = url, sent_config = config, timer_after = t,
          outcome = (case r of Inl error \<Rightarrow> Inl (catch_block error) | Inr v \<Rightarrow> Inr v)\<rparr>)"

section \<open>Definitions that state the specification\<close>

text \<open>
  A string equals \<open>true\<close> when case is ignored: four characters, each the right letter in
  either case.
\<close>

definition equalsTrueIgnoringCase :: "string \<Rightarrow> bool" where
  "equalsTrueIgnoringCase s =
     (case s of
        [a, b, c, d] \<Rightarrow>
          (a = CHR ''t'' \<or> a = CHR ''T'') \<and> (b = CHR ''r'' \<or> b = CHR ''R'') \<and>
          (c = CHR ''u'' \<or> c = CHR ''U'') \<and> (d = CHR ''e'' \<or> d = CHR ''E'')
      | _ \<Rightarrow> False)"


text \<open>
  The variables of each gated sub-group, in the order the code reads them, and what it
  means for a list of names that all, or none, of them are set (to a non-empty value).
\<close>

definition allSet :: "env \<Rightarrow> string list \<Rightarrow> bool" where
  "allSet e ks = list_all (\<lambda>k. truthy (e k)) ks"

definition noneSet :: "env \<Rightarrow> string list \<Rightarrow> bool" where
  "noneSet e ks = list_all (\<lambda>k. \<not> truthy (e k)) ks"

definition auth_vars :: "string list" where
  "auth_vars = [''REACT_APP_AUTH_DOMAIN'', ''REACT_APP_CLIENT_ID'', ''REACT_APP_REDIRECT_URI'']"

definition firebase_vars :: "string list" where
  "firebase_vars =
     [''REACT_APP_FIREBASE_API_KEY'', ''REACT_APP_FIREBASE_AUTH_DOMAIN'',
      ''REACT_APP_FIREBASE_PROJECT_ID'', ''REACT_APP_FIREBASE_STORAGE_BUCKET'',
      ''REACT_APP_FIREBASE_MESSAGING_SENDER_ID'', ''REACT_APP_FIREBASE_APP_ID'']"

definition analytics_vars :: "string list" where
  "analytics_vars = [''REACT_APP_GOOGLE_ANALYTICS_ID'', ''REACT_APP_MIXPANEL_TOKEN'']"

definition assets_vars :: "string list" where
  "assets_vars = [''REACT_APP_CDN_URL'', ''REACT_APP_ASSETS_URL'']"

definition social_vars :: "string list" where
  "social_vars =
     [''REACT_APP_FACEBOOK_APP_ID'', ''REACT_APP_GITHUB_CLIENT_ID'', ''REACT_APP_LINKEDIN_CLIENT_ID'']"

definition monitoring_vars :: "string list" where
  "monitoring_vars = [''REACT_APP_SENTRY_DSN'', ''REACT_APP_HOTJAR_ID'']"

text \<open>The error \<open>getEnvVar\<close> throws for a name.\<close>

definition requiredButNotSet :: "string \<Rightarrow> js_error" where
  "requiredButNotSet k = Error (''Environment variable '' @ k @ '' is required but not set'')"



section \<open>Config loader: parseBoolean\<close>

lemma toLowerCase_char_letter:
  assumes "97 \<le> (of_char c' :: nat)" "(of_char c' :: nat) \<le> 122"
  shows "toLowerCase_char c = c' \<longleftrightarrow> c = c' \<or> (of_char c :: nat) + 32 = of_char c'"
  using assms
  apply (subst (1 2) of_char_eq_iff[where ?'a = nat, symmetric])
  apply (auto simp add: toLowerCase_char_def Let_def)
  done

lemma toLowerCase_char_t: "toLowerCase_char c = CHR ''t'' \<longleftrightarrow> c = CHR ''t'' \<or> c = CHR ''T''"
  by (subst toLowerCase_char_letter, simp, simp, subst (3) of_char_eq_iff[where ?'a = nat, symmetric], simp)

lemma toLowerCase_char_r: "toLowerCase_char c = CHR ''r'' \<longleftrightarrow> c = CHR ''r'' \<or> c = CHR ''R''"
  by (subst toLowerCase_char_letter, simp, simp, subst (3) of_char_eq_iff[where ?'a = nat, symmetric], simp)

lemma toLowerCase_char_u: "toLowerCase_char c = CHR ''u'' \<longleftrightarrow> c = CHR ''u'' \<or> c = CHR ''U''"
  by (subst toLowerCase_char_letter, simp, simp, subst (3) of_char_eq_iff[where ?'a = nat, symmetric], simp)

lemma toLowerCase_char_e: "toLowerCase_char c = CHR ''e'' \<longleftrightarrow> c = CHR ''e'' \<or> c = CHR ''E''"
  by (subst toLowerCase_char_letter, simp, simp, subst (3) of_char_eq_iff[where ?'a = nat, symmetric], simp)

lemma toLowerCase_true: "toLowerCase s = ''true'' \<longleftrightarrow> equalsTrueIgnoringCase s"
  by (auto simp add: toLowerCase_def equalsTrueIgnoringCase_def toLowerCase_char_t
      toLowerCase_char_r toLowerCase_char_u toLowerCase_char_e split: list.splits)

text \<open>
  Claim C6, as the code has it. For an absent or empty value \<open>parseBoolean\<close> returns the
  fallback. For every other value the fallback plays no part: the result is true when
  the value equals \<open>true\<close> ignoring case, and false otherwise.
\<close>

theorem parseBoolean_decided_by_value:
  "parseBoolean v fallback =
     (case v of
        None \<Rightarrow> fallback
      | Some s \<Rightarrow> if s = [] then fallback else equalsTrueIgnoringCase s)"
  by (cases v) (simp_all add: parseBoolean_def toLowerCase_true)

theorem parseBoolean_decided_by_value_witness:
  "parseBoolean (Some ''TRUE'') False = True \<and> parseBoolean (Some ''True'') False = True \<and>
   parseBoolean (Some ''true'') False = True \<and> parseBoolean (Some ''yes'') True = False \<and>
   parseBoolean None True = True \<and> parseBoolean (Some '''') True = True"
  by (simp add: parseBoolean_decided_by_value equalsTrueIgnoringCase_def)

text \<open>
  Claim C6 as stated fails: \<open>false\<close> is a string other than \<open>true\<close>, the fallback is
  \<open>True\<close>, and the result is not the fallback.
\<close>

theorem parseBoolean_other_string_ignores_fallback:
  "\<not> equalsTrueIgnoringCase ''false'' \<and> parseBoolean (Some ''false'') True \<noteq> True"
  by (simp add: parseBoolean_def toLowerCase_def toLowerCase_char_def equalsTrueIgnoringCase_def)

section \<open>Config loader: validateConfig\<close>

lemma sublist_in_context:
  assumes "sublist v m"
  shows "sublist v (p @ m @ s)"
proof -
  from assms obtain a b where "m = a @ v @ b" by (auto simp add: sublist_def)
  then have "p @ m @ s = (p @ a) @ v @ (b @ s)" by simp
  then show ?thesis unfolding sublist_def by blast
qed

lemma sublist_join: "v \<in> set xs \<Longrightarrow> sublist v (join sep xs)"
proof (induction sep xs rule: join.induct)
  case (1 sep)
  then show ?case by simp
next
  case (2 sep x)
  then show ?case by simp
next
  case (3 sep x y ys)
  show ?case
  proof (cases "v = x")
    case True
    then show ?thesis by simp
  next
    case False
    with 3 have "sublist v (join sep (y # ys))" by simp
    then have "sublist v ((x @ sep) @ join sep (y # ys) @ [])" by (rule sublist_in_context)
    then show ?thesis by simp
  qed
qed

lemma validateVars_ok: "validateVars vars e = Inr () \<longleftrightarrow> (\<forall>v\<in>set vars. truthy (e v))"
  by (auto simp add: validateVars_def Let_def filter_empty_conv)

lemma validateVars_names:
  assumes "validateVars vars e = Inl (Error msg)" "v \<in> set vars" "\<not> truthy (e v)"
  shows "sublist v msg"
proof -
  let ?missing = "filter (\<lambda>varName. \<not> truthy (e varName)) vars"
  have m: "msg = ''Missing required environment variables: '' @ join '', '' ?missing
                @ [CHR 0x0A]
                @ ''Please check your .env file and ensure all required variables are set.''"
    using assms(1) by (simp add: validateVars_def Let_def split: if_splits)
  have "v \<in> set ?missing" using assms(2,3) by simp
  then have "sublist v (join '', '' ?missing)" by (rule sublist_join)
  then show ?thesis unfolding m by (rule sublist_in_context)
qed

text \<open>
  Claim C7. \<open>validateConfig\<close> checks the fixed list \<open>requiredVars\<close>. With
  \<open>REACT_APP_API_BASE_URL\<close> unset (or empty) it throws the error whose message lists exactly
  that name; with every listed variable set it returns. For any list of names, the check
  returns exactly when all of them are set, and otherwise the one message it throws
  contains every missing name, not only the first.
\<close>

theorem validateConfig_lists_missing:
  "requiredVars = [''REACT_APP_API_BASE_URL''] \<and>
   (\<not> truthy (e ''REACT_APP_API_BASE_URL'') \<longrightarrow>
      validateConfig e =
        Inl (Error (''Missing required environment variables: REACT_APP_API_BASE_URL''
                    @ [CHR 0x0A]
                    @ ''Please check your .env file and ensure all required variables are set.''))) \<and>
   ((\<forall>v\<in>set requiredVars. truthy (e v)) \<longrightarrow> validateConfig e = Inr ()) \<and>
   (validateVars vars e = Inr () \<longleftrightarrow> (\<forall>v\<in>set vars. truthy (e v))) \<and>
   (\<forall>msg. validateVars vars e = Inl (Error msg) \<longrightarrow>
      (\<forall>v\<in>set vars. \<not> truthy (e v) \<longrightarrow> sublist v msg))"
proof (intro conjI)
  show "requiredVars = [''REACT_APP_API_BASE_URL'']" by (simp add: requiredVars_def)
  show "\<not> truthy (e ''REACT_APP_API_BASE_URL'') \<longrightarrow>
      validateConfig e =
        Inl (Error (''Missing required environment variables: REACT_APP_API_BASE_URL''
                    @ [CHR 0x0A]
                    @ ''Please check your .env file and ensure all required variables are set.''))"
    by (simp add: validateConfig_def validateVars_def requiredVars_def)
  show "(\<forall>v\<in>set requiredVars. truthy (e v)) \<longrightarrow> validateConfig e = Inr ()"
    by (simp add: validateConfig_def validateVars_ok)
  show "validateVars vars e = Inr () \<longleftrightarrow> (\<forall>v\<in>set vars. truthy (e v))"
    by (rule validateVars_ok)
  show "\<forall>msg. validateVars vars e = Inl (Error msg) \<longrightarrow>
      (\<forall>v\<in>set vars. \<not> truthy (e v) \<longrightarrow> sublist v msg)"
    using validateVars_names by blast
qed

text \<open>
  At the empty environment the message is the one above; with the variable set the check
  returns; and of three names with only \<open>B\<close> set, \<open>A\<close> and \<open>C\<close> are both in the message.
\<close>

theorem validateConfig_lists_missing_witness:
  "validateConfig Map.empty =
     Inl (Error (''Missing required environment variables: REACT_APP_API_BASE_URL''
                 @ [CHR 0x0A]
                 @ ''Please check your .env file and ensure all required variables are set.'')) \<and>
   validateConfig [''REACT_APP_API_BASE_URL'' \<mapsto> ''https://api.example.com''] = Inr () \<and>
   validateVars [''A'', ''B'', ''C''] [''B'' \<mapsto> ''1''] =
     Inl (Error (''Missing required environment variables: A, C''
                 @ [CHR 0x0A]
                 @ ''Please check your .env file and ensure all required variables are set.'')) \<and>
   sublist ''C'' (''Missing required environment variables: A, C''
                 @ [CHR 0x0A]
                 @ ''Please check your .env file and ensure all required variables are set.'')"
proof -
  have unset: "\<not> truthy (Map.empty ''REACT_APP_API_BASE_URL'')" by simp
  have c1: "validateConfig Map.empty =
     Inl (Error (''Missing required environment variables: REACT_APP_API_BASE_URL''
                 @ [CHR 0x0A]
                 @ ''Please check your .env file and ensure all required variables are set.''))"
    using validateConfig_lists_missing [of Map.empty "[]"] unset by blast
  have allset: "\<forall>v\<in>set requiredVars.
      truthy ([''REACT_APP_API_BASE_URL'' \<mapsto> ''https://api.example.com''] v)"
    by (simp add: requiredVars_def)
  have c2: "validateConfig [''REACT_APP_API_BASE_URL'' \<mapsto> ''https://api.example.com''] = Inr ()"
    using validateConfig_lists_missing
      [of "[''REACT_APP_API_BASE_URL'' \<mapsto> ''https://api.example.com'']" "[]"] allset
    by blast
  have c3: "validateVars [''A'', ''B'', ''C''] [''B'' \<mapsto> ''1''] =
     Inl (Error (''Missing required environment variables: A, C''
                 @ [CHR 0x0A]
                 @ ''Please check your .env file and ensure all required variables are set.''))"
    by (simp add: validateVars_def)
  have "\<not> truthy ([''B'' \<mapsto> ''1''] ''C'')" and "''C'' \<in> set [''A'', ''B'', ''C'']"
    by simp_all
  with c3 have c4: "sublist ''C'' (''Missing required environment variables: A, C''
                 @ [CHR 0x0A]
                 @ ''Please check your .env file and ensure all required variables are set.'')"
    using validateConfig_lists_missing [of "[''B'' \<mapsto> ''1'']" "[''A'', ''B'', ''C'']"]
    by blast
  show ?thesis using c1 c2 c3 c4 by blast
qed

section \<open>Config loader: parseNumber\<close>




lemma sign_not_digit: "\<not> isDigit (CHR ''+'')" "\<not> isDigit (CHR ''-'')"
  by (simp_all add: isDigit_def)















section \<open>Config loader: gated sub-groups\<close>

lemma bindE_Inr: "bindE (Inr v) f = f v"
  by (simp add: bindE_def)

lemma bindE_Inl: "bindE (Inl x) f = Inl x"
  by (simp add: bindE_def)

lemma getEnvVar_set: "truthy (e k) \<Longrightarrow> getEnvVar e k fb = Inr (the (e k))"
  by (cases "e k") (simp_all add: getEnvVar_def js_or_def or_else_def)

lemma getEnvVar_default: "d \<noteq> [] \<Longrightarrow> getEnvVar e k (Some d) = Inr (or_else (e k) d)"
  by (cases "e k") (simp_all add: getEnvVar_def js_or_def or_else_def)

lemma getEnvVar_missing: "\<not> truthy (e k) \<Longrightarrow> getEnvVar e k None = Inl (requiredButNotSet k)"
  by (simp add: getEnvVar_def requiredButNotSet_def)

lemma getEnvVar_missing_empty_default:
  "\<not> truthy (e k) \<Longrightarrow> getEnvVar e k (Some '''') = Inl (requiredButNotSet k)"
  by (simp add: getEnvVar_def requiredButNotSet_def)

lemma config_app_ok:
  "config_app e =
     Inr \<lparr>name = or_else (e ''REACT_APP_APP_NAME'') ''React App'',
          version = or_else (e ''REACT_APP_VERSION'') ''1.0.0'',
          environment = or_else (e ''REACT_APP_ENVIRONMENT'') ''development''\<rparr>"
  by (simp add: config_app_def getEnvVar_default bindE_Inr)

lemma config_api_ok:
  assumes "truthy (e ''REACT_APP_API_BASE_URL'')"
  shows "config_api e =
     Inr \<lparr>baseUrl = the (e ''REACT_APP_API_BASE_URL''),
          timeout = parseNumber (e ''REACT_APP_API_TIMEOUT'') (Num 10000),
          api_version = or_else (e ''REACT_APP_API_VERSION'') ''v1''\<rparr>"
  using assms by (simp add: config_api_def getEnvVar_set getEnvVar_default bindE_Inr)

lemma config_auth_ok:
  assumes "\<not> truthy (e ''REACT_APP_AUTH_DOMAIN'') \<or> allSet e auth_vars"
  shows "config_auth e =
     Inr (if truthy (e ''REACT_APP_AUTH_DOMAIN'')
          then Some \<lparr>domain = the (e ''REACT_APP_AUTH_DOMAIN''),
                     clientId = the (e ''REACT_APP_CLIENT_ID''),
                     redirectUri = the (e ''REACT_APP_REDIRECT_URI'')\<rparr>
          else None)"
  using assms by (auto simp add: config_auth_def allSet_def auth_vars_def getEnvVar_set bindE_Inr)

lemma config_firebase_ok:
  assumes "\<not> truthy (e ''REACT_APP_FIREBASE_API_KEY'') \<or> allSet e firebase_vars"
  shows "config_firebase e =
     Inr (if truthy (e ''REACT_APP_FIREBASE_API_KEY'')
          then Some \<lparr>apiKey = the (e ''REACT_APP_FIREBASE_API_KEY''),
                     authDomain = the (e ''REACT_APP_FIREBASE_AUTH_DOMAIN''),
                     projectId = the (e ''REACT_APP_FIREBASE_PROJECT_ID''),
                     storageBucket = the (e ''REACT_APP_FIREBASE_STORAGE_BUCKET''),
                     messagingSenderId = the (e ''REACT_APP_FIREBASE_MESSAGING_SENDER_ID''),
                     appId = the (e ''REACT_APP_FIREBASE_APP_ID'')\<rparr>
          else None)"
  using assms
  by (auto simp add: config_firebase_def allSet_def firebase_vars_def getEnvVar_set bindE_Inr)

lemma config_analytics_ok:
  assumes "noneSet e analytics_vars \<or> allSet e analytics_vars"
  shows "config_analytics e =
     Inr (if allSet e analytics_vars
          then Some \<lparr>googleAnalyticsId = the (e ''REACT_APP_GOOGLE_ANALYTICS_ID''),
                     mixpanelToken = the (e ''REACT_APP_MIXPANEL_TOKEN'')\<rparr>
          else None)"
  using assms
  by (auto simp add: config_analytics_def allSet_def noneSet_def analytics_vars_def
      getEnvVar_set bindE_Inr)

lemma config_assets_ok:
  assumes "noneSet e assets_vars \<or> allSet e assets_vars"
  shows "config_assets e =
     Inr (if allSet e assets_vars
          then Some \<lparr>cdnUrl = the (e ''REACT_APP_CDN_URL''),
                     assetsUrl = the (e ''REACT_APP_ASSETS_URL'')\<rparr>
          else None)"
  using assms
  by (auto simp add: config_assets_def allSet_def noneSet_def assets_vars_def
      getEnvVar_set bindE_Inr)

lemma config_social_ok:
  assumes "noneSet e social_vars \<or> allSet e social_vars"
  shows "config_social e =
     Inr (if allSet e social_vars
          then Some \<lparr>facebookAppId = the (e ''REACT_APP_FACEBOOK_APP_ID''),
                     githubClientId = the (e ''REACT_APP_GITHUB_CLIENT_ID''),
                     linkedinClientId = the (e ''REACT_APP_LINKEDIN_CLIENT_ID'')\<rparr>
          else None)"
  using assms
  by (auto simp add: config_social_def allSet_def noneSet_def social_vars_def
      getEnvVar_set bindE_Inr)

lemma config_monitoring_ok:
  assumes "noneSet e monitoring_vars \<or> allSet e monitoring_vars"
  shows "config_monitoring e =
     Inr (if allSet e monitoring_vars
          then Some \<lparr>sentryDsn = the (e ''REACT_APP_SENTRY_DSN''),
                     hotjarId = the (e ''REACT_APP_HOTJAR_ID'')\<rparr>
          else None)"
  using assms
  by (auto simp add: config_monitoring_def allSet_def noneSet_def monitoring_vars_def
      getEnvVar_set bindE_Inr)

lemma config_auth_incomplete:
  assumes "truthy (e ''REACT_APP_AUTH_DOMAIN'')" "\<not> allSet e auth_vars"
  shows "\<exists>k\<in>set auth_vars. \<not> truthy (e k) \<and> config_auth e = Inl (requiredButNotSet k)"
proof (cases "truthy (e ''REACT_APP_CLIENT_ID'')")
  case False
  with assms(1) have "config_auth e = Inl (requiredButNotSet ''REACT_APP_CLIENT_ID'')"
    by (simp add: config_auth_def getEnvVar_set getEnvVar_missing bindE_Inr bindE_Inl)
  with False show ?thesis by (simp add: auth_vars_def)
next
  case True
  with assms have m: "\<not> truthy (e ''REACT_APP_REDIRECT_URI'')"
    by (simp add: allSet_def auth_vars_def)
  with assms(1) True have "config_auth e = Inl (requiredButNotSet ''REACT_APP_REDIRECT_URI'')"
    by (simp add: config_auth_def getEnvVar_set getEnvVar_missing bindE_Inr bindE_Inl)
  with m show ?thesis by (simp add: auth_vars_def)
qed

lemma config_firebase_incomplete:
  assumes t: "truthy (e ''REACT_APP_FIREBASE_API_KEY'')" and n: "\<not> allSet e firebase_vars"
  shows "\<exists>k\<in>set firebase_vars. \<not> truthy (e k) \<and> config_firebase e = Inl (requiredButNotSet k)"
proof (cases "truthy (e ''REACT_APP_FIREBASE_AUTH_DOMAIN'')")
  case False
  with t have "config_firebase e = Inl (requiredButNotSet ''REACT_APP_FIREBASE_AUTH_DOMAIN'')"
    by (simp add: config_firebase_def getEnvVar_set getEnvVar_missing bindE_Inr bindE_Inl)
  with False show ?thesis by (simp add: firebase_vars_def)
next
  case d: True
  show ?thesis
  proof (cases "truthy (e ''REACT_APP_FIREBASE_PROJECT_ID'')")
    case False
    with t d have "config_firebase e = Inl (requiredButNotSet ''REACT_APP_FIREBASE_PROJECT_ID'')"
      by (simp add: config_firebase_def getEnvVar_set getEnvVar_missing bindE_Inr bindE_Inl)
    with False show ?thesis by (simp add: firebase_vars_def)
  next
    case p: True
    show ?thesis
    proof (cases "truthy (e ''REACT_APP_FIREBASE_STORAGE_BUCKET'')")
      case False
      with t d p have "config_firebase e = Inl (requiredButNotSet ''REACT_APP_FIREBASE_STORAGE_BUCKET'')"
        by (simp add: config_firebase_def getEnvVar_set getEnvVar_missing bindE_Inr bindE_Inl)
      with False show ?thesis by (simp add: firebase_vars_def)
    next
      case s: True
      show ?thesis
      proof (cases "truthy (e ''REACT_APP_FIREBASE_MESSAGING_SENDER_ID'')")
        case False
        with t d p s have "config_firebase e = Inl (requiredButNotSet ''REACT_APP_FIREBASE_MESSAGING_SENDER_ID'')"
          by (simp add: config_firebase_def getEnvVar_set getEnvVar_missing bindE_Inr bindE_Inl)
        with False show ?thesis by (simp add: firebase_vars_def)
      next
        case m: True
        with t d p s n have a: "\<not> truthy (e ''REACT_APP_FIREBASE_APP_ID'')"
          by (simp add: allSet_def firebase_vars_def)
        with t d p s m have "config_firebase e = Inl (requiredButNotSet ''REACT_APP_FIREBASE_APP_ID'')"
          by (simp add: config_firebase_def getEnvVar_set getEnvVar_missing bindE_Inr bindE_Inl)
        with a show ?thesis by (simp add: firebase_vars_def)
      qed
    qed
  qed
qed

text \<open>
  Claim C1, as the code has it. Let \<open>REACT_APP_API_BASE_URL\<close> be set. If every gated
  sub-group has either all of its variables set or no trigger set, the configuration is
  constructed, a sub-group without a trigger is absent, and a sub-group with all its
  variables set is present with every field equal to its variable. \<open>auth\<close> is triggered by
  \<open>REACT_APP_AUTH_DOMAIN\<close> alone and \<open>firebase\<close> by \<open>REACT_APP_FIREBASE_API_KEY\<close> alone, and
  their fields are read without a fallback: when one of the two is triggered and another
  of its variables is unset, the construction throws the error naming such a variable,
  so no sub-group with empty fields results.
\<close>

theorem config_gated_groups:
  "(truthy (e ''REACT_APP_API_BASE_URL'') \<and>
    (\<not> truthy (e ''REACT_APP_AUTH_DOMAIN'') \<or> allSet e auth_vars) \<and>
    (\<not> truthy (e ''REACT_APP_FIREBASE_API_KEY'') \<or> allSet e firebase_vars) \<and>
    (noneSet e analytics_vars \<or> allSet e analytics_vars) \<and>
    (noneSet e assets_vars \<or> allSet e assets_vars) \<and>
    (noneSet e social_vars \<or> allSet e social_vars) \<and>
    (noneSet e monitoring_vars \<or> allSet e monitoring_vars) \<longrightarrow>
    (\<exists>c. config e = Inr c \<and>
       auth c =
         (if truthy (e ''REACT_APP_AUTH_DOMAIN'')
          then Some \<lparr>domain = the (e ''REACT_APP_AUTH_DOMAIN''),
                     clientId = the (e ''REACT_APP_CLIENT_ID''),
                     redirectUri = the (e ''REACT_APP_REDIRECT_URI'')\<rparr>
          else None) \<and>
       firebase c =
         (if truthy (e ''REACT_APP_FIREBASE_API_KEY'')
          then Some \<lparr>apiKey = the (e ''REACT_APP_FIREBASE_API_KEY''),
                     authDomain = the (e ''REACT_APP_FIREBASE_AUTH_DOMAIN''),
                     projectId = the (e ''REACT_APP_FIREBASE_PROJECT_ID''),
                     storageBucket = the (e ''REACT_APP_FIREBASE_STORAGE_BUCKET''),
                     messagingSenderId = the (e ''REACT_APP_FIREBASE_MESSAGING_SENDER_ID''),
                     appId = the (e ''REACT_APP_FIREBASE_APP_ID'')\<rparr>
          else None) \<and>
       analytics c =
         (if allSet e analytics_vars
          then Some \<lparr>googleAnalyticsId = the (e ''REACT_APP_GOOGLE_ANALYTICS_ID''),
                     mixpanelToken = the (e ''REACT_APP_MIXPANEL_TOKEN'')\<rparr>
          else None) \<and>
       assets c =
         (if allSet e assets_vars
          then Some \<lparr>cdnUrl = the (e ''REACT_APP_CDN_URL''),
                     assetsUrl = the (e ''REACT_APP_ASSETS_URL'')\<rparr>
          else None) \<and>
       social c =
         (if allSet e social_vars
          then Some \<lparr>facebookAppId = the (e ''REACT_APP_FACEBOOK_APP_ID''),
                     githubClientId = the (e ''REACT_APP_GITHUB_CLIENT_ID''),
                     linkedinClientId = the (e ''REACT_APP_LINKEDIN_CLIENT_ID'')\<rparr>
          else None) \<and>
       monitoring c =
         (if allSet e monitoring_vars
          then Some \<lparr>sentryDsn = the (e ''REACT_APP_SENTRY_DSN''),
                     hotjarId = the (e ''REACT_APP_HOTJAR_ID'')\<rparr>
          else None))) \<and>
   (truthy (e ''REACT_APP_API_BASE_URL'') \<and> truthy (e ''REACT_APP_AUTH_DOMAIN'') \<and>
    \<not> allSet e auth_vars \<longrightarrow>
    (\<exists>k\<in>set auth_vars. \<not> truthy (e k) \<and> config e = Inl (requiredButNotSet k))) \<and>
   (truthy (e ''REACT_APP_API_BASE_URL'') \<and>
    (\<not> truthy (e ''REACT_APP_AUTH_DOMAIN'') \<or> allSet e auth_vars) \<and>
    truthy (e ''REACT_APP_FIREBASE_API_KEY'') \<and> \<not> allSet e firebase_vars \<longrightarrow>
    (\<exists>k\<in>set firebase_vars. \<not> truthy (e k) \<and> config e = Inl (requiredButNotSet k)))"
proof (intro conjI impI)
  assume a: "truthy (e ''REACT_APP_API_BASE_URL'') \<and>
    (\<not> truthy (e ''REACT_APP_AUTH_DOMAIN'') \<or> allSet e auth_vars) \<and>
    (\<not> truthy (e ''REACT_APP_FIREBASE_API_KEY'') \<or> allSet e firebase_vars) \<and>
    (noneSet e analytics_vars \<or> allSet e analytics_vars) \<and>
    (noneSet e assets_vars \<or> allSet e assets_vars) \<and>
    (noneSet e social_vars \<or> allSet e social_vars) \<and>
    (noneSet e monitoring_vars \<or> allSet e monitoring_vars)"
  then have ap: "config_api e = Inr \<lparr>baseUrl = the (e ''REACT_APP_API_BASE_URL''),
          timeout = parseNumber (e ''REACT_APP_API_TIMEOUT'') (Num 10000),
          api_version = or_else (e ''REACT_APP_API_VERSION'') ''v1''\<rparr>"
    by (simp add: config_api_ok)
  from a have au: "config_auth e = Inr (if truthy (e ''REACT_APP_AUTH_DOMAIN'')
          then Some \<lparr>domain = the (e ''REACT_APP_AUTH_DOMAIN''),
                     clientId = the (e ''REACT_APP_CLIENT_ID''),
                     redirectUri = the (e ''REACT_APP_REDIRECT_URI'')\<rparr>
          else None)"
    by (intro config_auth_ok) simp
  from a have fb: "config_firebase e = Inr (if truthy (e ''REACT_APP_FIREBASE_API_KEY'')
          then Some \<lparr>apiKey = the (e ''REACT_APP_FIREBASE_API_KEY''),
                     authDomain = the (e ''REACT_APP_FIREBASE_AUTH_DOMAIN''),
                     projectId = the (e ''REACT_APP_FIREBASE_PROJECT_ID''),
                     storageBucket = the (e ''REACT_APP_FIREBASE_STORAGE_BUCKET''),
                     messagingSenderId = the (e ''REACT_APP_FIREBASE_MESSAGING_SENDER_ID''),
                     appId = the (e ''REACT_APP_FIREBASE_APP_ID'')\<rparr>
          else None)"
    by (intro config_firebase_ok) simp
  from a have an: "config_analytics e = Inr (if allSet e analytics_vars
          then Some \<lparr>googleAnalyticsId = the (e ''REACT_APP_GOOGLE_ANALYTICS_ID''),
                     mixpanelToken = the (e ''REACT_APP_MIXPANEL_TOKEN'')\<rparr>
          else None)"
    by (intro config_analytics_ok) simp
  from a have as: "config_assets e = Inr (if allSet e assets_vars
          then Some \<lparr>cdnUrl = the (e ''REACT_APP_CDN_URL''),
                     assetsUrl = the (e ''REACT_APP_ASSETS_URL'')\<rparr>
          else None)"
    by (intro config_assets_ok) simp
  from a have so: "config_social e = Inr (if allSet e social_vars
          then Some \<lparr>facebookAppId = the (e ''REACT_APP_FACEBOOK_APP_ID''),
                     githubClientId = the (e ''REACT_APP_GITHUB_CLIENT_ID''),
                     linkedinClientId = the (e ''REACT_APP_LINKEDIN_CLIENT_ID'')\<rparr>
          else None)"
    by (intro config_social_ok) simp
  from a have mo: "config_monitoring e = Inr (if allSet e monitoring_vars
          then Some \<lparr>sentryDsn = the (e ''REACT_APP_SENTRY_DSN''),
                     hotjarId = the (e ''REACT_APP_HOTJAR_ID'')\<rparr>
          else None)"
    by (intro config_monitoring_ok) simp
  show "\<exists>c. config e = Inr c \<and>
       auth c =
         (if truthy (e ''REACT_APP_AUTH_DOMAIN'')
          then Some \<lparr>domain = the (e ''REACT_APP_AUTH_DOMAIN''),
                     clientId = the (e ''REACT_APP_CLIENT_ID''),
                     redirectUri = the (e ''REACT_APP_REDIRECT_URI'')\<rparr>
          else None) \<and>
       firebase c =
         (if truthy (e ''REACT_APP_FIREBASE_API_KEY'')
          then Some \<lparr>apiKey = the (e ''REACT_APP_FIREBASE_API_KEY''),
                     authDomain = the (e ''REACT_APP_FIREBASE_AUTH_DOMAIN''),
                     projectId = the (e ''REACT_APP_FIREBASE_PROJECT_ID''),
                     storageBucket = the (e ''REACT_APP_FIREBASE_STORAGE_BUCKET''),
                     messagingSenderId = the (e ''REACT_APP_FIREBASE_MESSAGING_SENDER_ID''),
                     appId = the (e ''REACT_APP_FIREBASE_APP_ID'')\<rparr>
          else None) \<and>
       analytics c =
         (if allSet e analytics_vars
          then Some \<lparr>googleAnalyticsId = the (e ''REACT_APP_GOOGLE_ANALYTICS_ID''),
                     mixpanelToken = the (e ''REACT_APP_MIXPANEL_TOKEN'')\<rparr>
          else None) \<and>
       assets c =
         (if allSet e assets_vars
          then Some \<lparr>cdnUrl = the (e ''REACT_APP_CDN_URL''),
                     assetsUrl = the (e ''REACT_APP_ASSETS_URL'')\<rparr>
          else None) \<and>
       social c =
         (if allSet e social_vars
          then Some \<lparr>facebookAppId = the (e ''REACT_APP_FACEBOOK_APP_ID''),
                     githubClientId = the (e ''REACT_APP_GITHUB_CLIENT_ID''),
                     linkedinClientId = the (e ''REACT_APP_LINKEDIN_CLIENT_ID'')\<rparr>
          else None) \<and>
       monitoring c =
         (if allSet e monitoring_vars
          then Some \<lparr>sentryDsn = the (e ''REACT_APP_SENTRY_DSN''),
                     hotjarId = the (e ''REACT_APP_HOTJAR_ID'')\<rparr>
          else None)"
    unfolding config_def config_app_ok ap au fb an as so mo bindE_Inr by simp
next
  assume a: "truthy (e ''REACT_APP_API_BASE_URL'') \<and> truthy (e ''REACT_APP_AUTH_DOMAIN'') \<and>
    \<not> allSet e auth_vars"
  then obtain k where k: "k \<in> set auth_vars" "\<not> truthy (e k)"
    "config_auth e = Inl (requiredButNotSet k)"
    using config_auth_incomplete[of e] by blast
  from a have "config e = Inl (requiredButNotSet k)"
    unfolding config_def config_app_ok bindE_Inr
    by (simp add: config_api_ok k(3) bindE_Inr bindE_Inl)
  with k show "\<exists>k\<in>set auth_vars. \<not> truthy (e k) \<and> config e = Inl (requiredButNotSet k)"
    by blast
next
  assume a: "truthy (e ''REACT_APP_API_BASE_URL'') \<and>
    (\<not> truthy (e ''REACT_APP_AUTH_DOMAIN'') \<or> allSet e auth_vars) \<and>
    truthy (e ''REACT_APP_FIREBASE_API_KEY'') \<and> \<not> allSet e firebase_vars"
  then obtain k where k: "k \<in> set firebase_vars" "\<not> truthy (e k)"
    "config_firebase e = Inl (requiredButNotSet k)"
    using config_firebase_incomplete[of e] by blast
  from a have au: "\<exists>x. config_auth e = Inr x"
    using config_auth_ok[of e] by simp
  then obtain x where x: "config_auth e = Inr x" ..
  from a have "config e = Inl (requiredButNotSet k)"
    unfolding config_def config_app_ok bindE_Inr
    by (simp add: config_api_ok x k(3) bindE_Inr bindE_Inl)
  with k show "\<exists>k\<in>set firebase_vars. \<not> truthy (e k) \<and> config e = Inl (requiredButNotSet k)"
    by blast
qed

theorem config_gated_groups_witness:
  "(\<exists>c. config [''REACT_APP_API_BASE_URL'' \<mapsto> ''https://api.example.com'',
                  ''REACT_APP_CDN_URL'' \<mapsto> ''https://cdn.example.com'',
                  ''REACT_APP_ASSETS_URL'' \<mapsto> ''https://assets.example.com''] = Inr c \<and>
        auth c = None \<and> firebase c = None \<and> analytics c = None \<and>
        assets c = Some \<lparr>cdnUrl = ''https://cdn.example.com'',
                         assetsUrl = ''https://assets.example.com''\<rparr> \<and>
        social c = None \<and> monitoring c = None) \<and>
   (\<exists>k. config [''REACT_APP_API_BASE_URL'' \<mapsto> ''https://api.example.com'',
                  ''REACT_APP_AUTH_DOMAIN'' \<mapsto> ''auth.example.com''] =
          Inl (requiredButNotSet k)) \<and>
   (\<exists>k. config [''REACT_APP_API_BASE_URL'' \<mapsto> ''https://api.example.com'',
                  ''REACT_APP_FIREBASE_API_KEY'' \<mapsto> ''key'',
                  ''REACT_APP_FIREBASE_AUTH_DOMAIN'' \<mapsto> ''fb.example.com''] =
          Inl (requiredButNotSet k))"
proof (intro conjI)
  let ?e = "[''REACT_APP_API_BASE_URL'' \<mapsto> ''https://api.example.com'',
             ''REACT_APP_CDN_URL'' \<mapsto> ''https://cdn.example.com'',
             ''REACT_APP_ASSETS_URL'' \<mapsto> ''https://assets.example.com'']"
  have h: "truthy (?e ''REACT_APP_API_BASE_URL'') \<and>
    (\<not> truthy (?e ''REACT_APP_AUTH_DOMAIN'') \<or> allSet ?e auth_vars) \<and>
    (\<not> truthy (?e ''REACT_APP_FIREBASE_API_KEY'') \<or> allSet ?e firebase_vars) \<and>
    (noneSet ?e analytics_vars \<or> allSet ?e analytics_vars) \<and>
    (noneSet ?e assets_vars \<or> allSet ?e assets_vars) \<and>
    (noneSet ?e social_vars \<or> allSet ?e social_vars) \<and>
    (noneSet ?e monitoring_vars \<or> allSet ?e monitoring_vars)"
    by code_simp
  have v: "allSet ?e assets_vars" "\<not> allSet ?e analytics_vars" "\<not> allSet ?e social_vars"
    "\<not> allSet ?e monitoring_vars" "\<not> truthy (?e ''REACT_APP_AUTH_DOMAIN'')"
    "\<not> truthy (?e ''REACT_APP_FIREBASE_API_KEY'')"
    "the (?e ''REACT_APP_CDN_URL'') = ''https://cdn.example.com''"
    "the (?e ''REACT_APP_ASSETS_URL'') = ''https://assets.example.com''"
    by code_simp+
  note ex = config_gated_groups [of ?e, THEN conjunct1, THEN mp, OF h]
  show "\<exists>c. config ?e = Inr c \<and>
        auth c = None \<and> firebase c = None \<and> analytics c = None \<and>
        assets c = Some \<lparr>cdnUrl = ''https://cdn.example.com'',
                         assetsUrl = ''https://assets.example.com''\<rparr> \<and>
        social c = None \<and> monitoring c = None"
    using ex by (simp only: v if_True if_False)
next
  let ?e = "[''REACT_APP_API_BASE_URL'' \<mapsto> ''https://api.example.com'',
             ''REACT_APP_AUTH_DOMAIN'' \<mapsto> ''auth.example.com'']"
  have "truthy (?e ''REACT_APP_API_BASE_URL'') \<and> truthy (?e ''REACT_APP_AUTH_DOMAIN'') \<and>
    \<not> allSet ?e auth_vars"
    by code_simp
  then have "\<exists>k\<in>set auth_vars. \<not> truthy (?e k) \<and> config ?e = Inl (requiredButNotSet k)"
    by (rule config_gated_groups [of ?e, THEN conjunct2, THEN conjunct1, THEN mp])
  then show "\<exists>k. config ?e = Inl (requiredButNotSet k)" by (elim bexE conjE) (rule exI)
next
  let ?e = "[''REACT_APP_API_BASE_URL'' \<mapsto> ''https://api.example.com'',
             ''REACT_APP_FIREBASE_API_KEY'' \<mapsto> ''key'',
             ''REACT_APP_FIREBASE_AUTH_DOMAIN'' \<mapsto> ''fb.example.com'']"
  have "truthy (?e ''REACT_APP_API_BASE_URL'') \<and>
    (\<not> truthy (?e ''REACT_APP_AUTH_DOMAIN'') \<or> allSet ?e auth_vars) \<and>
    truthy (?e ''REACT_APP_FIREBASE_API_KEY'') \<and> \<not> allSet ?e firebase_vars"
    by code_simp
  then have "\<exists>k\<in>set firebase_vars. \<not> truthy (?e k) \<and> config ?e = Inl (requiredButNotSet k)"
    by (rule config_gated_groups [of ?e, THEN conjunct2, THEN conjunct2, THEN mp])
  then show "\<exists>k. config ?e = Inl (requiredButNotSet k)" by (elim bexE conjE) (rule exI)
qed

text \<open>
  Claim C1 as stated fails: with the API base URL and only \<open>REACT_APP_FIREBASE_API_KEY\<close> set,
  no configuration with a \<open>firebase\<close> sub-group of empty fields results; \<open>getEnvVar\<close> throws
  for \<open>REACT_APP_FIREBASE_AUTH_DOMAIN\<close>.
\<close>

theorem config_firebase_key_only_throws:
  "config [''REACT_APP_API_BASE_URL'' \<mapsto> ''https://api.example.com'',
           ''REACT_APP_FIREBASE_API_KEY'' \<mapsto> ''key''] =
     Inl (Error ''Environment variable REACT_APP_FIREBASE_AUTH_DOMAIN is required but not set'')"
  by code_simp

text \<open>
  The other four groups pass the fallback \<open>''\<close> to \<open>getEnvVar\<close>, which reads an empty
  fallback as no fallback: with one analytics variable set and the other unset the
  construction throws as well.
\<close>

lemma config_analytics_one_set_throws:
  "config [''REACT_APP_API_BASE_URL'' \<mapsto> ''https://api.example.com'',
           ''REACT_APP_MIXPANEL_TOKEN'' \<mapsto> ''token''] =
     Inl (Error ''Environment variable REACT_APP_GOOGLE_ANALYTICS_ID is required but not set'')"
  by code_simp

section \<open>HTTP client: the request operation\<close>

lemma request_fields:
  "sent_url (request cfg token fetch endpoint options) = request_url cfg endpoint"
  "sent_config (request cfg token fetch endpoint options) = request_config cfg token options"
  "timer_after (request cfg token fetch endpoint options) =
     fst (try_block (cfg_timeout cfg) (fetch (request_url cfg endpoint) (request_config cfg token options)))"
  "outcome (request cfg token fetch endpoint options) =
     (case snd (try_block (cfg_timeout cfg) (fetch (request_url cfg endpoint) (request_config cfg token options))) of
        Inl error \<Rightarrow> Inl (catch_block error) | Inr v \<Rightarrow> Inr v)"
  by (simp_all add: request_def Let_def split: prod.splits)



text \<open>
  Claim C4. When \<open>fetch\<close> resolves with a status outside 200..299, the request fails with
  the \<open>ApiError\<close> of the response's status and status text, whose data is the decoded JSON
  body, or \<open>null\<close> when decoding the body fails (no body, or not JSON).
\<close>

theorem request_non_success_status:
  "fetch (request_url cfg endpoint) (request_config cfg token options) = Resolves r \<and>
   (resp_status r < 200 \<or> 299 < resp_status r) \<longrightarrow>
     outcome (request cfg token fetch endpoint options) =
       Inl (ApiError (resp_status r) (resp_statusText r)
              (case resp_json r of Inl _ \<Rightarrow> JNull | Inr d \<Rightarrow> d))"
  by (auto simp add: request_fields try_block_def catch_block_def ok_def)

text \<open>
  A 404 with the body \<open>{"message":"not found"}\<close> gives that object as data; a 502 whose body
  does not decode gives \<open>null\<close>.
\<close>

theorem request_non_success_status_witness:
  "outcome (request \<lparr>baseURL = '''', cfg_timeout = 10000 :: nat, cfg_headers = Map.empty\<rparr> None
      (\<lambda>u c. Resolves \<lparr>resp_status = 404, resp_statusText = ''Not Found'',
                         resp_json = Inr (JObj [(''message'', JStr ''not found'')])\<rparr>)
      ''/api/users/7'' \<lparr>http_method = Some ''GET'', headers = Map.empty, body = None\<rparr>) =
     Inl (ApiError 404 ''Not Found'' (JObj [(''message'', JStr ''not found'')])) \<and>
   outcome (request \<lparr>baseURL = '''', cfg_timeout = 10000 :: nat, cfg_headers = Map.empty\<rparr> None
      (\<lambda>u c. Resolves \<lparr>resp_status = 502, resp_statusText = ''Bad Gateway'',
                         resp_json = Inl (ThrownError ''SyntaxError'' ''Unexpected end of JSON input'')\<rparr>)
      ''/api/users/7'' \<lparr>http_method = Some ''GET'', headers = Map.empty, body = None\<rparr>) =
     Inl (ApiError 502 ''Bad Gateway'' JNull)"
proof -
  let ?cfg = "\<lparr>baseURL = '''', cfg_timeout = 10000 :: nat, cfg_headers = Map.empty\<rparr>"
  let ?opts = "\<lparr>http_method = Some ''GET'', headers = Map.empty, body = None\<rparr>"
  let ?r1 = "\<lparr>resp_status = 404, resp_statusText = ''Not Found'',
                         resp_json = Inr (JObj [(''message'', JStr ''not found'')])\<rparr>"
  let ?r2 = "\<lparr>resp_status = 502, resp_statusText = ''Bad Gateway'',
                         resp_json = Inl (ThrownError ''SyntaxError'' ''Unexpected end of JSON input'')\<rparr>"
  have "outcome (request ?cfg None (\<lambda>u c. Resolves ?r1) ''/api/users/7'' ?opts) =
       Inl (ApiError (resp_status ?r1) (resp_statusText ?r1)
              (case resp_json ?r1 of Inl _ \<Rightarrow> JNull | Inr d \<Rightarrow> d))"
    using request_non_success_status [of "\<lambda>u c. Resolves ?r1" ?cfg "''/api/users/7''" None ?opts ?r1]
    by simp
  moreover have "outcome (request ?cfg None (\<lambda>u c. Resolves ?r2) ''/api/users/7'' ?opts) =
       Inl (ApiError (resp_status ?r2) (resp_statusText ?r2)
              (case resp_json ?r2 of Inl _ \<Rightarrow> JNull | Inr d \<Rightarrow> d))"
    using request_non_success_status [of "\<lambda>u c. Resolves ?r2" ?cfg "''/api/users/7''" None ?opts ?r2]
    by simp
  ultimately show ?thesis by simp
qed

text \<open>
  Claim C9. When the stored token is present (a non-empty string), the \<open>Authorization\<close>
  header that is sent is \<open>Bearer\<close> followed by the token, whatever the caller put under
  that key in the per-call headers. Without a token, and for every other key, the per-call
  value wins over the configured default.
\<close>

theorem request_stored_token_wins:
  "(truthy token \<longrightarrow>
      headers (sent_config (request cfg token fetch endpoint options)) ''Authorization'' =
        Some (''Bearer '' @ the token)) \<and>
   (\<not> truthy token \<longrightarrow>
      headers (sent_config (request cfg token fetch endpoint options)) ''Authorization'' =
        (case headers options ''Authorization'' of
           None \<Rightarrow> cfg_headers cfg ''Authorization'' | Some v \<Rightarrow> Some v)) \<and>
   (k \<noteq> ''Authorization'' \<longrightarrow>
      headers (sent_config (request cfg token fetch endpoint options)) k =
        (case headers options k of None \<Rightarrow> cfg_headers cfg k | Some v \<Rightarrow> Some v))"
  by (simp add: request_fields request_config_def Let_def map_add_def)

theorem request_stored_token_wins_witness:
  "headers (sent_config
      (request \<lparr>baseURL = [], cfg_timeout = 10000 :: nat,
                cfg_headers = [''Content-Type'' \<mapsto> ''application/json'']\<rparr>
         (Some ''abc123'') (\<lambda>u c. TimesOut []) ''/api/users''
         \<lparr>http_method = Some ''GET'', headers = [''Authorization'' \<mapsto> ''Basic Zm9v''],
          body = None\<rparr>)) ''Authorization'' = Some ''Bearer abc123''"
proof -
  have t: "truthy (Some ''abc123'')" by simp
  have "headers (sent_config
      (request \<lparr>baseURL = [], cfg_timeout = 10000 :: nat,
                cfg_headers = [''Content-Type'' \<mapsto> ''application/json'']\<rparr>
         (Some ''abc123'') (\<lambda>u c. TimesOut []) ''/api/users''
         \<lparr>http_method = Some ''GET'', headers = [''Authorization'' \<mapsto> ''Basic Zm9v''],
          body = None\<rparr>)) ''Authorization'' = Some (''Bearer '' @ the (Some ''abc123''))"
    using t by (rule request_stored_token_wins [THEN conjunct1, THEN mp])
  then show ?thesis by simp
qed

text \<open>
  Claim C10. With \<open>NODE_ENV\<close> equal to \<open>development\<close> the configured base URL is empty,
  whatever \<open>REACT_APP_API_BASE_URL\<close> holds, and the URL that is requested is the endpoint as
  given. Otherwise the base URL is \<open>REACT_APP_API_BASE_URL\<close>, empty when that is unset, and
  the URL is the base URL followed by the endpoint.
\<close>

theorem getApiConfig_baseURL:
  "(e ''NODE_ENV'' = Some ''development'' \<longrightarrow>
      baseURL (getApiConfig numberOr10000 e) = [] \<and>
      sent_url (request (getApiConfig numberOr10000 e) token fetch endpoint options) = endpoint) \<and>
   (e ''NODE_ENV'' \<noteq> Some ''development'' \<longrightarrow>
      baseURL (getApiConfig numberOr10000 e) =
        (case e ''REACT_APP_API_BASE_URL'' of None \<Rightarrow> [] | Some u \<Rightarrow> u) \<and>
      sent_url (request (getApiConfig numberOr10000 e) token fetch endpoint options) =
        (case e ''REACT_APP_API_BASE_URL'' of None \<Rightarrow> [] | Some u \<Rightarrow> u) @ endpoint)"
  by (simp add: request_fields request_url_def getApiConfig_def or_else_def split: option.splits)

theorem getApiConfig_baseURL_witness:
  "sent_url (request
      (getApiConfig (\<lambda>v. 10000 :: nat)
         [''NODE_ENV'' \<mapsto> ''development'', ''REACT_APP_API_BASE_URL'' \<mapsto> ''https://api.example.com''])
      None (\<lambda>u c. TimesOut []) ''/api/users''
      \<lparr>http_method = Some ''GET'', headers = Map.empty, body = None\<rparr>) = ''/api/users'' \<and>
   sent_url (request
      (getApiConfig (\<lambda>v. 10000 :: nat)
         [''NODE_ENV'' \<mapsto> ''production'', ''REACT_APP_API_BASE_URL'' \<mapsto> ''https://api.example.com''])
      None (\<lambda>u c. TimesOut []) ''/api/users''
      \<lparr>http_method = Some ''GET'', headers = Map.empty, body = None\<rparr>) =
     ''https://api.example.com/api/users''"
proof (intro conjI)
  let ?dev = "[''NODE_ENV'' \<mapsto> ''development'', ''REACT_APP_API_BASE_URL'' \<mapsto> ''https://api.example.com'']"
  let ?prod = "[''NODE_ENV'' \<mapsto> ''production'', ''REACT_APP_API_BASE_URL'' \<mapsto> ''https://api.example.com'']"
  let ?opts = "\<lparr>http_method = Some ''GET'', headers = Map.empty, body = None\<rparr>"
  have d: "?dev ''NODE_ENV'' = Some ''development''" by simp
  have p: "?prod ''NODE_ENV'' \<noteq> Some ''development''" by simp
  have u: "?prod ''REACT_APP_API_BASE_URL'' = Some ''https://api.example.com''" by simp
  show "sent_url (request (getApiConfig (\<lambda>v. 10000 :: nat) ?dev) None (\<lambda>u c. TimesOut [])
          ''/api/users'' ?opts) = ''/api/users''"
    by (rule getApiConfig_baseURL [THEN conjunct1, THEN mp, THEN conjunct2]) (rule d)
  have "sent_url (request (getApiConfig (\<lambda>v. 10000 :: nat) ?prod) None (\<lambda>u c. TimesOut [])
          ''/api/users'' ?opts) =
        (case ?prod ''REACT_APP_API_BASE_URL'' of None \<Rightarrow> [] | Some u \<Rightarrow> u) @ ''/api/users''"
    by (rule getApiConfig_baseURL [THEN conjunct2, THEN mp, THEN conjunct2]) (rule p)
  then show "sent_url (request (getApiConfig (\<lambda>v. 10000 :: nat) ?prod) None (\<lambda>u c. TimesOut [])
          ''/api/users'' ?opts) = ''https://api.example.com/api/users''"
    unfolding u by simp
qed

text \<open>
  The timer when the promise settles: cleared when \<open>fetch\<close> resolved, run when it was the
  timeout that aborted the request, and still pending when \<open>fetch\<close> rejected for another
  reason, since \<open>clearTimeout\<close> stands after the \<open>await\<close> inside the \<open>try\<close> block and the
  \<open>catch\<close> block does not call it.
\<close>

lemma request_timer_after:
  "timer_after (request cfg token fetch endpoint options) =
     (case fetch (request_url cfg endpoint) (request_config cfg token options) of
        Resolves r \<Rightarrow> Cleared
      | Rejects err \<Rightarrow> Armed (cfg_timeout cfg)
      | TimesOut m \<Rightarrow> Fired)"
  by (simp add: request_fields try_block_def split: fetch_outcome.splits)

text \<open>
  Claim C2 asks that the timer is disarmed on every exit path. The code at a transport
  failure: \<open>fetch\<close> rejects with a \<open>TypeError\<close>, the caller gets \<open>ApiError\<close> 0, and the timer
  is still armed with its delay of 10000 ms.
\<close>

theorem request_transport_failure_leaves_timer_armed:
  "timer_after
     (request \<lparr>baseURL = [], cfg_timeout = 10000 :: nat, cfg_headers = Map.empty\<rparr> None
        (\<lambda>u c. Rejects (ThrownError ''TypeError'' ''Failed to fetch'')) ''/api/users''
        \<lparr>http_method = Some ''GET'', headers = Map.empty, body = None\<rparr>) = Armed 10000 \<and>
   outcome
     (request \<lparr>baseURL = [], cfg_timeout = 10000 :: nat, cfg_headers = Map.empty\<rparr> None
        (\<lambda>u c. Rejects (ThrownError ''TypeError'' ''Failed to fetch'')) ''/api/users''
        \<lparr>http_method = Some ''GET'', headers = Map.empty, body = None\<rparr>) =
     Inl (ApiError 0 ''Failed to fetch'' JNull)"
  by (simp add: request_fields try_block_def catch_block_def)

section \<open>Development proxy: onError\<close>



end
